theory Spec2Isabelle
  imports Main "HOL-Library.Word"
begin

unbundle bit_operations_syntax

section \<open>JavaScript values and errors\<close>

text \<open>
  The values the two hooks handle.  A number is its IEEE-754 binary64 bit pattern (the
  hooks never compute with numbers, they only compare them); an object or array is its
  reference, because the hooks never look inside one.  Function values are not part of
  the model: the setter is always called with a plain value, never with an updater
  function.  Strings are lists of 8-bit characters.
\<close>

datatype jsval =
    JUndefined
  | JNull
  | JBool bool
  | JNum "64 word"
  | JStr string
  | JObj nat

datatype error =
    ReferenceError string
  | SyntaxError
  | TypeError
  | SecurityError
  | QuotaExceededError

definition is_nan :: "64 word \<Rightarrow> bool" where
  "is_nan b = (b AND 0x7FF0000000000000 = 0x7FF0000000000000 \<and> b AND 0x000FFFFFFFFFFFFF \<noteq> 0)"

definition is_zero :: "64 word \<Rightarrow> bool" where
  "is_zero b = (b AND 0x7FFFFFFFFFFFFFFF = 0)"

text \<open>The operator \<^verbatim>\<open>===\<close>.\<close>

fun strict_equals :: "jsval \<Rightarrow> jsval \<Rightarrow> bool" where
  "strict_equals (JNum a) (JNum b) =
     (\<not> is_nan a \<and> \<not> is_nan b \<and> (a = b \<or> (is_zero a \<and> is_zero b)))"
| "strict_equals x y = (x = y)"

text \<open>\<^verbatim>\<open>Object.is\<close>, which React uses to compare a new state with the old one and
  the entries of two dependency arrays.\<close>

fun same_value :: "jsval \<Rightarrow> jsval \<Rightarrow> bool" where
  "same_value (JNum a) (JNum b) = (a = b \<or> (is_nan a \<and> is_nan b))"
| "same_value x y = (x = y)"

fun typeof_val :: "jsval \<Rightarrow> string" where
  "typeof_val JUndefined = ''undefined''"
| "typeof_val JNull = ''object''"
| "typeof_val (JBool b) = ''boolean''"
| "typeof_val (JNum n) = ''number''"
| "typeof_val (JStr s) = ''string''"
| "typeof_val (JObj r) = ''object''"

text \<open>Calling a value that is not a function throws; no value of \<^typ>\<open>jsval\<close> is one.\<close>

definition call_value :: "jsval \<Rightarrow> jsval \<Rightarrow> error + jsval" where
  "call_value f arg = Inl TypeError"

definition and_then :: "error + 'a \<Rightarrow> ('a \<Rightarrow> error + 'b) \<Rightarrow> error + 'b" where
  "and_then r f = (case r of Inl e \<Rightarrow> Inl e | Inr x \<Rightarrow> f x)"

section \<open>The browser: storage, console, document body, global object, JSON\<close>

text \<open>
  \<^item> \<open>storage\<close> is \<^verbatim>\<open>window.localStorage\<close>; with \<open>storage_denied\<close> every access to it
    throws a SecurityError, with \<open>storage_full\<close> every \<^verbatim>\<open>setItem\<close> throws a
    QuotaExceededError.
  \<^item> \<open>global_object\<close> holds the properties of the global object, which an identifier
    that no enclosing scope declares resolves to.
  \<^item> \<open>parse_other\<close> and \<open>stringify_other\<close> are the platform's \<^verbatim>\<open>JSON.parse\<close> and
    \<^verbatim>\<open>JSON.stringify\<close> outside the fragment written out below (numbers, objects,
    arrays, escapes, white space).
  \<^item> \<open>console\<close> collects what \<^verbatim>\<open>console.log\<close> printed, \<open>body_classes\<close> is
    \<^verbatim>\<open>document.body.classList\<close>.
\<close>

record world =
  storage :: "string \<rightharpoonup> string"
  storage_denied :: bool
  storage_full :: bool
  global_object :: "string \<rightharpoonup> jsval"
  parse_other :: "string \<Rightarrow> error + jsval"
  stringify_other :: "jsval \<Rightarrow> error + string option"
  console :: "error list"
  body_classes :: "string list"

definition getItem :: "string \<Rightarrow> world \<Rightarrow> error + string option" where
  "getItem k w = (if storage_denied w then Inl SecurityError else Inr (storage w k))"

definition setItem :: "string \<Rightarrow> string \<Rightarrow> world \<Rightarrow> error + world" where
  "setItem k v w =
     (if storage_denied w then Inl SecurityError
      else if storage_full w then Inl QuotaExceededError
      else Inr (w\<lparr>storage := (storage w)(k \<mapsto> v)\<rparr>))"

definition console_log :: "error \<Rightarrow> world \<Rightarrow> world" where
  "console_log e w = w\<lparr>console := console w @ [e]\<rparr>"

definition classList_add :: "string \<Rightarrow> world \<Rightarrow> world" where
  "classList_add c w =
     (if c \<in> set (body_classes w) then w else w\<lparr>body_classes := body_classes w @ [c]\<rparr>)"

definition classList_remove :: "string \<Rightarrow> world \<Rightarrow> world" where
  "classList_remove c w = w\<lparr>body_classes := removeAll c (body_classes w)\<rparr>"

definition classList_contains :: "string \<Rightarrow> world \<Rightarrow> bool" where
  "classList_contains c w = (c \<in> set (body_classes w))"

subsection \<open>JSON\<close>

text \<open>A character that stands for itself between the quotes of a JSON string: not the
  quote, not the backslash, not a control character.\<close>

definition json_plain_char :: "char \<Rightarrow> bool" where
  "json_plain_char c = (c \<noteq> CHR 0x22 \<and> c \<noteq> CHR 0x5C \<and> (0x20::nat) \<le> of_char c)"

definition json_quote :: "string \<Rightarrow> string" where
  "json_quote s = CHR 0x22 # s @ [CHR 0x22]"

definition string_literal :: "string \<Rightarrow> string option" where
  "string_literal s =
     (case s of
        [] \<Rightarrow> None
      | q # rest \<Rightarrow>
          if q = CHR 0x22 \<and> rest \<noteq> [] \<and> last rest = CHR 0x22
             \<and> list_all json_plain_char (butlast rest)
          then Some (butlast rest) else None)"

definition JSON_parse :: "world \<Rightarrow> string \<Rightarrow> error + jsval" where
  "JSON_parse w s =
     (if s = ''null'' then Inr JNull
      else if s = ''true'' then Inr (JBool True)
      else if s = ''false'' then Inr (JBool False)
      else case string_literal s of
             Some t \<Rightarrow> Inr (JStr t)
           | None \<Rightarrow> parse_other w s)"

text \<open>\<^verbatim>\<open>JSON.stringify\<close> returns a string or \<^verbatim>\<open>undefined\<close> (\<open>None\<close>).\<close>

definition JSON_stringify :: "world \<Rightarrow> jsval \<Rightarrow> error + string option" where
  "JSON_stringify w v =
     (case v of
        JUndefined \<Rightarrow> Inr None
      | JNull \<Rightarrow> Inr (Some ''null'')
      | JBool b \<Rightarrow> Inr (Some (if b then ''true'' else ''false''))
      | JStr t \<Rightarrow>
          if list_all json_plain_char t then Inr (Some (json_quote t))
          else stringify_other w v
      | _ \<Rightarrow> stringify_other w v)"

text \<open>\<^verbatim>\<open>setItem\<close> converts its second argument to a string.\<close>

definition to_string_arg :: "string option \<Rightarrow> string" where
  "to_string_arg a = (case a of None \<Rightarrow> ''undefined'' | Some s \<Rightarrow> s)"

subsection \<open>Identifiers\<close>

text \<open>An identifier is looked up in the enclosing function scopes first, then on the
  global object.  \<^verbatim>\<open>typeof\<close> of an identifier that resolves nowhere is
  \<^verbatim>\<open>"undefined"\<close>; reading it throws a ReferenceError.\<close>

definition resolve :: "(string \<times> jsval) list \<Rightarrow> world \<Rightarrow> string \<Rightarrow> jsval option" where
  "resolve scope w x =
     (case map_of scope x of Some v \<Rightarrow> Some v | None \<Rightarrow> global_object w x)"

definition typeof_identifier :: "(string \<times> jsval) list \<Rightarrow> world \<Rightarrow> string \<Rightarrow> string" where
  "typeof_identifier scope w x =
     (case resolve scope w x of None \<Rightarrow> ''undefined'' | Some v \<Rightarrow> typeof_val v)"

definition eval_identifier :: "(string \<times> jsval) list \<Rightarrow> world \<Rightarrow> string \<Rightarrow> error + jsval" where
  "eval_identifier scope w x =
     (case resolve scope w x of None \<Rightarrow> Inl (ReferenceError x) | Some v \<Rightarrow> Inr v)"

section \<open>useLocalStorage\<close>

text \<open>
  The initializer passed to \<^verbatim>\<open>useState\<close>: first the body of its \<^verbatim>\<open>try\<close>, then the
  whole of it with the \<^verbatim>\<open>catch\<close>.  \<^verbatim>\<open>item ? JSON.parse(item) : initialValue\<close> takes
  the second branch for \<^verbatim>\<open>null\<close> and for the empty string.
\<close>

definition useLocalStorage_init_try :: "string \<Rightarrow> jsval \<Rightarrow> world \<Rightarrow> error + jsval" where
  "useLocalStorage_init_try key initialValue w =
     and_then (getItem key w) (\<lambda>item.
       case item of
         None \<Rightarrow> Inr initialValue
       | Some s \<Rightarrow> if s \<noteq> [] then JSON_parse w s else Inr initialValue)"

definition useLocalStorage_init :: "string \<Rightarrow> jsval \<Rightarrow> world \<Rightarrow> error + (jsval \<times> world)" where
  "useLocalStorage_init key initialValue w =
     (case useLocalStorage_init_try key initialValue w of
        Inr v \<Rightarrow> Inr (v, w)
      | Inl err \<Rightarrow> Inr (initialValue, console_log err w))"

text \<open>
  The effect with the dependencies \<^verbatim>\<open>[key, value]\<close>.  The scope of its body holds the
  parameters \<^verbatim>\<open>key\<close> and \<^verbatim>\<open>initialValue\<close> and the state \<^verbatim>\<open>value\<close> (and the functions
  \<^verbatim>\<open>setValue\<close>, \<^verbatim>\<open>useState\<close>, \<^verbatim>\<open>useEffect\<close>, \<^verbatim>\<open>useLocalStorage\<close>, which are not
  values of the model); the body reads the identifier \<^verbatim>\<open>storedValue\<close>.
  \<^verbatim>\<open>window.localStorage\<close> is evaluated before the argument
  \<^verbatim>\<open>JSON.stringify(valueToStore)\<close>.
\<close>

definition useLocalStorage_effect_try :: "string \<Rightarrow> jsval \<Rightarrow> jsval \<Rightarrow> world \<Rightarrow> error + world" where
  "useLocalStorage_effect_try key initialValue val w =
     (let scope = [(''key'', JStr key), (''initialValue'', initialValue), (''value'', val)] in
      and_then
        (if typeof_identifier scope w ''storedValue'' = ''function''
         then and_then (eval_identifier scope w ''storedValue'') (\<lambda>f.
              and_then (eval_identifier scope w ''storedValue'') (\<lambda>arg. call_value f arg))
         else eval_identifier scope w ''storedValue'')
        (\<lambda>valueToStore.
           if storage_denied w then Inl SecurityError
           else and_then (JSON_stringify w valueToStore) (\<lambda>text.
                  setItem key (to_string_arg text) w)))"

definition useLocalStorage_effect :: "string \<Rightarrow> jsval \<Rightarrow> jsval \<Rightarrow> world \<Rightarrow> error + world" where
  "useLocalStorage_effect key initialValue val w =
     (case useLocalStorage_effect_try key initialValue val w of
        Inr w' \<Rightarrow> Inr w'
      | Inl err \<Rightarrow> Inr (console_log err w))"

section \<open>useColorMode\<close>

text \<open>The effect with the dependencies \<^verbatim>\<open>[colorMode]\<close>.\<close>

definition useColorMode_effect :: "jsval \<Rightarrow> world \<Rightarrow> error + world" where
  "useColorMode_effect colorMode w =
     (let classname = ''dark'' in
      if strict_equals colorMode (JStr ''dark'')
      then Inr (classList_add classname w)
      else Inr (classList_remove classname w))"

section \<open>The component that calls useColorMode\<close>

text \<open>
  What React keeps for the component between renders: the state cell of \<^verbatim>\<open>useState\<close> and,
  for each of the two effects, the dependency array of its last run (\<open>None\<close> before the
  first).  An effect runs after a render when it has not run yet or when an entry of its
  dependency array is not \<^verbatim>\<open>Object.is\<close> the entry of the last run.  The effects run in
  the order of their declaration: the one of useLocalStorage, then the one of
  useColorMode.
\<close>

record component =
  value_cell :: jsval
  persist_deps :: "jsval list option"
  sync_deps :: "jsval list option"

definition deps_changed :: "jsval list option \<Rightarrow> jsval list \<Rightarrow> bool" where
  "deps_changed last_deps deps =
     (case last_deps of None \<Rightarrow> True | Some old \<Rightarrow> \<not> list_all2 same_value old deps)"

definition run_persist :: "string \<Rightarrow> jsval \<Rightarrow> component \<times> world \<Rightarrow> error + component \<times> world" where
  "run_persist key initialValue st =
     (case st of (c, w) \<Rightarrow>
        let deps = [JStr key, value_cell c] in
        if deps_changed (persist_deps c) deps
        then and_then (useLocalStorage_effect key initialValue (value_cell c) w)
               (\<lambda>w'. Inr (c\<lparr>persist_deps := Some deps\<rparr>, w'))
        else Inr (c, w))"

definition run_sync :: "component \<times> world \<Rightarrow> error + component \<times> world" where
  "run_sync st =
     (case st of (c, w) \<Rightarrow>
        let deps = [value_cell c] in
        if deps_changed (sync_deps c) deps
        then and_then (useColorMode_effect (value_cell c) w)
               (\<lambda>w'. Inr (c\<lparr>sync_deps := Some deps\<rparr>, w'))
        else Inr (c, w))"

definition commit :: "component \<times> world \<Rightarrow> error + component \<times> world" where
  "commit st = and_then (run_persist ''color-mode'' (JStr ''dark'') st) run_sync"

text \<open>The first render of a page load, with its effects.\<close>

definition mount :: "world \<Rightarrow> error + component \<times> world" where
  "mount w =
     and_then (useLocalStorage_init ''color-mode'' (JStr ''dark'') w) (\<lambda>(v, w').
       commit (\<lparr>value_cell = v, persist_deps = None, sync_deps = None\<rparr>, w'))"

text \<open>\<^verbatim>\<open>setColorMode(m)\<close>: React keeps the state and renders nothing when \<open>m\<close> is
  \<^verbatim>\<open>Object.is\<close> the current state; otherwise it stores \<open>m\<close>, renders, and runs the
  effects whose dependencies changed.\<close>

definition setColorMode :: "jsval \<Rightarrow> component \<times> world \<Rightarrow> error + component \<times> world" where
  "setColorMode m st =
     (case st of (c, w) \<Rightarrow>
        if same_value m (value_cell c) then Inr (c, w)
        else commit (c\<lparr>value_cell := m\<rparr>, w))"

definition getCurrentMode :: "component \<times> world \<Rightarrow> jsval" where
  "getCurrentMode st = value_cell (fst st)"

text \<open>A sequence of setter calls, stopping at the first exception.\<close>

fun setColorModes :: "jsval list \<Rightarrow> component \<times> world \<Rightarrow> error + component \<times> world" where
  "setColorModes [] st = Inr st"
| "setColorModes (m # ms) st = and_then (setColorMode m st) (setColorModes ms)"

text \<open>A reload keeps the storage and the browser, and loads the page again: the console
  is empty and the body has the classes of the served document.\<close>

definition reload :: "string list \<Rightarrow> component \<times> world \<Rightarrow> error + component \<times> world" where
  "reload classes st = mount ((snd st)\<lparr>console := [], body_classes := classes\<rparr>)"

section \<open>The dark-mode switch\<close>

text \<open>
  The button of the guide, rendered with the \<^verbatim>\<open>colorMode\<close> of \<^verbatim>\<open>useColorMode()\<close>: what
  \<^verbatim>\<open>onPress\<close> does, the label, and the icon, which is either the inline \<^verbatim>\<open>svg\<close> with its
  path or the \<^verbatim>\<open>Image\<close> with its source.
\<close>

datatype icon = InlineSvg string | Image string

definition svg_path :: string where
  "svg_path = ''M19.513 11.397a.701.701 0 00-.588.128 7.496 7.496 0 01-2.276 1.336 7.101 7.101 0 01-2.583.462 7.505 7.505 0 01-5.32-2.209 7.568 7.568 0 01-2.199-5.342c0-.873.154-1.72.41-2.49a6.904 6.904 0 011.227-2.21.657.657 0 00-.102-.924.701.701 0 00-.589-.128C5.32.61 3.427 1.92 2.072 3.666A10.158 10.158 0 000 9.83c0 2.8 1.125 5.342 2.967 7.19a10.025 10.025 0 007.16 2.98c2.353 0 4.527-.822 6.266-2.183a10.13 10.13 0 003.58-5.624.623.623 0 00-.46-.796z''"

definition Button_onPress :: "jsval \<Rightarrow> component \<times> world \<Rightarrow> error + component \<times> world" where
  "Button_onPress colorMode st =
     setColorMode (if strict_equals colorMode (JStr ''light'') then JStr ''dark'' else JStr ''light'') st"

definition Button_label :: "jsval \<Rightarrow> string" where
  "Button_label colorMode = (if strict_equals colorMode (JStr ''light'') then ''DARK'' else ''LIGHT'')"

definition Button_icon :: "jsval \<Rightarrow> icon" where
  "Button_icon colorMode =
     (if strict_equals colorMode (JStr ''light'') then InlineSvg svg_path
      else Image ''/assets/icon-sun.svg'')"

section \<open>Browsers used as concrete inputs\<close>

text \<open>The classes of the served \<^verbatim>\<open>body\<close> element: \<^verbatim>\<open>dark\<close> and the class of the font
  variable, whose generated name stands here as \<open>space_mono_variable\<close>.\<close>

definition served_classes :: "string list" where
  "served_classes = [''dark'', ''space_mono_variable'']"

text \<open>A browser with empty storage, no global named \<^verbatim>\<open>storedValue\<close>, and a JSON that
  knows nothing beyond the fragment above.\<close>

definition fresh_browser :: world where
  "fresh_browser =
     \<lparr>storage = Map.empty, storage_denied = False, storage_full = False,
      global_object = Map.empty,
      parse_other = (\<lambda>s. Inl SyntaxError),
      stringify_other = (\<lambda>v. Inl TypeError),
      console = [], body_classes = served_classes\<rparr>"

definition browser_storing :: "string \<Rightarrow> world" where
  "browser_storing text = fresh_browser\<lparr>storage := [''color-mode'' \<mapsto> text]\<rparr>"

text \<open>A browser whose storage is full, and where some other script has defined a global
  \<^verbatim>\<open>storedValue\<close>, so that the effect of useLocalStorage reaches \<^verbatim>\<open>setItem\<close>.\<close>

definition full_browser :: world where
  "full_browser =
     fresh_browser\<lparr>storage_full := True, global_object := [''storedValue'' \<mapsto> JStr ''light'']\<rparr>"

text \<open>A browser whose policy forbids the page to touch its storage.\<close>

definition denied_browser :: world where
  "denied_browser = fresh_browser\<lparr>storage_denied := True\<rparr>"

text \<open>The component of a page that was loaded in dark mode, after its first render.\<close>

definition dark_page :: "component \<times> world" where
  "dark_page =
     (\<lparr>value_cell = JStr ''dark'',
       persist_deps = Some [JStr ''color-mode'', JStr ''dark''],
       sync_deps = Some [JStr ''dark'']\<rparr>,
      fresh_browser\<lparr>console := [ReferenceError ''storedValue'']\<rparr>)"

section \<open>Predicates used in the statements and proofs\<close>

text \<open>After a render and its effects, both effects have run for the current state, and
  the body carries the class \<^verbatim>\<open>dark\<close> exactly when the state is \<^verbatim>\<open>"dark"\<close>.\<close>

definition settled :: "component \<times> world \<Rightarrow> bool" where
  "settled st =
     (persist_deps (fst st) = Some [JStr ''color-mode'', value_cell (fst st)] \<and>
      sync_deps (fst st) = Some [value_cell (fst st)] \<and>
      classList_contains ''dark'' (snd st) = (value_cell (fst st) = JStr ''dark''))"

text \<open>Every write to the storage fails: the storage is denied or full.\<close>

definition write_fails :: "world \<Rightarrow> bool" where
  "write_fails w = (storage_denied w \<or> storage_full w)"

text \<open>No write can succeed: writes fail, or the identifier \<^verbatim>\<open>storedValue\<close> resolves
  nowhere.\<close>

definition no_write :: "world \<Rightarrow> bool" where
  "no_write w = (write_fails w \<or> global_object w ''storedValue'' = None)"

text \<open>The parts of the browser that no hook changes.\<close>

definition same_browser :: "world \<Rightarrow> world \<Rightarrow> bool" where
  "same_browser w w' =
     (storage_denied w' = storage_denied w \<and> storage_full w' = storage_full w \<and>
      global_object w' = global_object w \<and> parse_other w' = parse_other w \<and>
      stringify_other w' = stringify_other w)"

section \<open>Basic facts\<close>

lemma strict_equals_str [simp]: "strict_equals v (JStr s) = (v = JStr s)"
  by (cases v) simp_all

lemma same_value_refl [simp]: "same_value v v"
  by (cases v) simp_all

lemma same_value_sym: "same_value a b = same_value b a"
  by (cases a; cases b) auto

lemma same_value_str: "same_value m v \<Longrightarrow> (m = JStr s) = (v = JStr s)"
  by (cases m; cases v) auto

lemma and_then_Inr [simp]: "and_then (Inr x) f = f x"
  by (simp add: and_then_def)

lemma and_then_Inl [simp]: "and_then (Inl e) f = Inl e"
  by (simp add: and_then_def)

lemma same_browser_refl [simp]: "same_browser w w"
  by (simp add: same_browser_def)

lemma same_browser_trans: "same_browser a b \<Longrightarrow> same_browser b c \<Longrightarrow> same_browser a c"
  by (simp add: same_browser_def)

lemma same_browser_no_write: "same_browser a b \<Longrightarrow> no_write b = no_write a"
  by (simp add: same_browser_def no_write_def write_fails_def)

lemmas run_defs =
  mount_def commit_def run_persist_def run_sync_def deps_changed_def setColorMode_def
  reload_def getCurrentMode_def
  useLocalStorage_init_def useLocalStorage_init_try_def
  useLocalStorage_effect_def useLocalStorage_effect_try_def useColorMode_effect_def
  typeof_identifier_def eval_identifier_def resolve_def call_value_def
  getItem_def setItem_def console_log_def classList_add_def classList_remove_def
  classList_contains_def JSON_parse_def JSON_stringify_def string_literal_def json_quote_def
  json_plain_char_def to_string_arg_def Let_def

lemmas browser_defs =
  fresh_browser_def browser_storing_def full_browser_def denied_browser_def
  served_classes_def dark_page_def

subsection \<open>JSON text of a plain string\<close>

lemma string_literal_quote:
  "list_all json_plain_char t \<Longrightarrow> string_literal (json_quote t) = Some t"
  by (simp add: string_literal_def json_quote_def)

lemma JSON_parse_quote:
  "list_all json_plain_char t \<Longrightarrow> JSON_parse w (json_quote t) = Inr (JStr t)"
  by (simp add: JSON_parse_def string_literal_quote) (simp add: json_quote_def)

lemma plain_light: "list_all json_plain_char ''light''"
  by (simp add: json_plain_char_def)

lemma plain_dark: "list_all json_plain_char ''dark''"
  by (simp add: json_plain_char_def)

subsection \<open>The initializer\<close>

lemma init_total: "\<exists>v w'. useLocalStorage_init key iv w = Inr (v, w')"
  by (simp add: useLocalStorage_init_def split: sum.splits)

lemma init_keeps:
  "useLocalStorage_init key iv w = Inr (v, w') \<Longrightarrow>
     storage w' = storage w \<and> same_browser w w' \<and> body_classes w' = body_classes w"
  by (auto simp: useLocalStorage_init_def console_log_def same_browser_def split: sum.splits)

lemma init_absent:
  "storage w key = None \<Longrightarrow> \<exists>w'. useLocalStorage_init key iv w = Inr (iv, w')"
  by (simp add: useLocalStorage_init_def useLocalStorage_init_try_def getItem_def)

subsection \<open>The two effects\<close>

lemma effect_try_cases:
  "useLocalStorage_effect_try key iv v w = Inr w' \<Longrightarrow>
   \<not> storage_denied w \<and> \<not> storage_full w \<and> (\<exists>t. w' = w\<lparr>storage := (storage w)(key \<mapsto> t)\<rparr>)"
  by (auto simp: useLocalStorage_effect_try_def setItem_def and_then_def Let_def
      split: sum.splits if_splits)

lemma effect_try_no_write:
  "no_write w \<Longrightarrow> \<exists>e. useLocalStorage_effect_try key iv v w = Inl e"
  by (auto simp: no_write_def write_fails_def useLocalStorage_effect_try_def setItem_def
      and_then_def Let_def typeof_identifier_def eval_identifier_def resolve_def
      split: sum.splits)

text \<open>Where \<^verbatim>\<open>storedValue\<close> resolves nowhere, the effect logs a ReferenceError and does
  nothing else, whatever the state is.\<close>

lemma effect_unbound:
  "global_object w ''storedValue'' = None \<Longrightarrow>
   useLocalStorage_effect key iv v w = Inr (console_log (ReferenceError ''storedValue'') w)"
  by (simp add: useLocalStorage_effect_def useLocalStorage_effect_try_def typeof_identifier_def
        eval_identifier_def resolve_def)

text \<open>Where \<^verbatim>\<open>storedValue\<close> is a global whose JSON text exists, a full storage makes the
  effect log the QuotaExceededError of \<^verbatim>\<open>setItem\<close>.\<close>

lemma effect_quota:
  assumes "global_object w ''storedValue'' = Some sv" and "JSON_stringify w sv = Inr text"
    and "\<not> storage_denied w" and "storage_full w"
  shows "useLocalStorage_effect key iv v w = Inr (console_log QuotaExceededError w)"
proof -
  have "map_of [(''key'', JStr key), (''initialValue'', iv), (''value'', v)] ''storedValue'' = None"
    by simp
  with assms(1) have r: "resolve [(''key'', JStr key), (''initialValue'', iv), (''value'', v)] w
      ''storedValue'' = Some sv"
    by (simp add: resolve_def)
  have "typeof_val sv \<noteq> ''function''" by (cases sv) simp_all
  with r assms(2-4) show ?thesis
    by (simp add: useLocalStorage_effect_def useLocalStorage_effect_try_def Let_def
        typeof_identifier_def eval_identifier_def setItem_def)
qed

text \<open>With the same global, a denied storage makes it log the SecurityError.\<close>

lemma effect_denied:
  assumes "global_object w ''storedValue'' = Some sv" and "storage_denied w"
  shows "useLocalStorage_effect key iv v w = Inr (console_log SecurityError w)"
proof -
  have "map_of [(''key'', JStr key), (''initialValue'', iv), (''value'', v)] ''storedValue'' = None"
    by simp
  with assms(1) have r: "resolve [(''key'', JStr key), (''initialValue'', iv), (''value'', v)] w
      ''storedValue'' = Some sv"
    by (simp add: resolve_def)
  have "typeof_val sv \<noteq> ''function''" by (cases sv) simp_all
  with r assms(2) show ?thesis
    by (simp add: useLocalStorage_effect_def useLocalStorage_effect_try_def Let_def
        typeof_identifier_def eval_identifier_def)
qed

lemma effect_result:
  "\<exists>w'. useLocalStorage_effect key iv v w = Inr w' \<and> same_browser w w' \<and>
     body_classes w' = body_classes w \<and>
     (no_write w \<longrightarrow> storage w' = storage w \<and>
        (\<exists>e. useLocalStorage_effect_try key iv v w = Inl e \<and> console w' = console w @ [e]))"
proof (cases "useLocalStorage_effect_try key iv v w")
  case (Inl e)
  then show ?thesis
    by (simp add: useLocalStorage_effect_def console_log_def same_browser_def)
next
  case (Inr w')
  from effect_try_cases [OF Inr] effect_try_no_write [of w key iv v] Inr
  show ?thesis
    by (auto simp: useLocalStorage_effect_def same_browser_def)
qed

lemma sync_result:
  "\<exists>w'. useColorMode_effect m w = Inr w' \<and> same_browser w w' \<and>
     classList_contains ''dark'' w' = (m = JStr ''dark'') \<and>
     storage w' = storage w \<and> console w' = console w"
  by (simp add: useColorMode_effect_def classList_contains_def classList_add_def
      classList_remove_def Let_def same_browser_def)

subsection \<open>Renders\<close>

lemma run_persist_total:
  "\<exists>c' w'. run_persist k iv (c, w) = Inr (c', w') \<and> value_cell c' = value_cell c"
proof -
  obtain w1 where "useLocalStorage_effect k iv (value_cell c) w = Inr w1"
    using effect_result by blast
  then show ?thesis by (simp add: run_persist_def Let_def)
qed

lemma run_sync_total:
  "\<exists>c' w'. run_sync (c, w) = Inr (c', w') \<and> value_cell c' = value_cell c"
proof -
  obtain w1 where "useColorMode_effect (value_cell c) w = Inr w1"
    using sync_result by blast
  then show ?thesis by (simp add: run_sync_def Let_def)
qed

lemma commit_total:
  "\<exists>c' w'. commit (c, w) = Inr (c', w') \<and> value_cell c' = value_cell c"
proof -
  obtain c1 w1 where 1: "run_persist ''color-mode'' (JStr ''dark'') (c, w) = Inr (c1, w1)"
    "value_cell c1 = value_cell c" using run_persist_total by blast
  obtain c2 w2 where "run_sync (c1, w1) = Inr (c2, w2)" "value_cell c2 = value_cell c1"
    using run_sync_total by blast
  with 1 show ?thesis by (simp add: commit_def)
qed

text \<open>A render after which both effects are due.\<close>

lemma commit_result:
  assumes "deps_changed (persist_deps c) [JStr ''color-mode'', value_cell c]"
    and "deps_changed (sync_deps c) [value_cell c]"
  shows "\<exists>st'. commit (c, w) = Inr st' \<and> settled st' \<and> value_cell (fst st') = value_cell c \<and>
     same_browser w (snd st') \<and>
     (no_write w \<longrightarrow> storage (snd st') = storage w \<and>
        (\<exists>e. useLocalStorage_effect_try ''color-mode'' (JStr ''dark'') (value_cell c) w = Inl e \<and>
             console (snd st') = console w @ [e]))"
proof -
  let ?v = "value_cell c"
  obtain w1 where w1: "useLocalStorage_effect ''color-mode'' (JStr ''dark'') ?v w = Inr w1"
    "same_browser w w1"
    "no_write w \<longrightarrow> storage w1 = storage w \<and>
        (\<exists>e. useLocalStorage_effect_try ''color-mode'' (JStr ''dark'') ?v w = Inl e \<and>
             console w1 = console w @ [e])"
    using effect_result [of "''color-mode''" "JStr ''dark''" ?v w] by blast
  obtain w2 where w2: "useColorMode_effect ?v w1 = Inr w2" "same_browser w1 w2"
    "classList_contains ''dark'' w2 = (?v = JStr ''dark'')"
    "storage w2 = storage w1" "console w2 = console w1"
    using sync_result [of ?v w1] by blast
  have c: "commit (c, w) =
      Inr (c\<lparr>persist_deps := Some [JStr ''color-mode'', ?v], sync_deps := Some [?v]\<rparr>, w2)"
    using assms w1(1) w2(1) by (simp add: commit_def run_persist_def run_sync_def Let_def)
  have "same_browser w w2" using w1(2) w2(2) by (rule same_browser_trans)
  with c w1(3) w2 show ?thesis by (simp add: settled_def)
qed

lemma mount_value:
  assumes "useLocalStorage_init ''color-mode'' (JStr ''dark'') w = Inr (v, w1)"
  shows "\<exists>st. mount w = Inr st \<and> getCurrentMode st = v"
proof -
  obtain c' w' where
    "commit (\<lparr>value_cell = v, persist_deps = None, sync_deps = None\<rparr>, w1) = Inr (c', w')"
    "value_cell c' = value_cell \<lparr>value_cell = v, persist_deps = None, sync_deps = None\<rparr>"
    using commit_total by blast
  with assms show ?thesis by (simp add: mount_def getCurrentMode_def)
qed

lemma mount_result:
  "\<exists>st. mount w = Inr st \<and> settled st \<and> same_browser w (snd st) \<and>
     (no_write w \<longrightarrow> storage (snd st) = storage w)"
proof -
  obtain v w1 where i: "useLocalStorage_init ''color-mode'' (JStr ''dark'') w = Inr (v, w1)"
    using init_total by blast
  from init_keeps [OF i] have f: "same_browser w w1" "storage w1 = storage w"
    by simp_all
  let ?c = "\<lparr>value_cell = v, persist_deps = None, sync_deps = None\<rparr>"
  have "\<exists>st'. commit (?c, w1) = Inr st' \<and> settled st' \<and> value_cell (fst st') = value_cell ?c \<and>
     same_browser w1 (snd st') \<and>
     (no_write w1 \<longrightarrow> storage (snd st') = storage w1 \<and>
        (\<exists>e. useLocalStorage_effect_try ''color-mode'' (JStr ''dark'') (value_cell ?c) w1 = Inl e \<and>
             console (snd st') = console w1 @ [e]))"
    by (rule commit_result) (simp_all add: deps_changed_def)
  then obtain st' where s: "commit (?c, w1) = Inr st'" "settled st'" "same_browser w1 (snd st')"
    "no_write w1 \<longrightarrow> storage (snd st') = storage w1" by blast
  have "same_browser w (snd st')" using f(1) s(3) by (rule same_browser_trans)
  with i s f same_browser_no_write [OF f(1)] show ?thesis by (simp add: mount_def)
qed

lemma setColorMode_result:
  assumes "settled st"
  shows "\<exists>st'. setColorMode m st = Inr st' \<and> settled st' \<and>
     same_value m (getCurrentMode st') \<and> same_browser (snd st) (snd st') \<and>
     (no_write (snd st) \<longrightarrow> storage (snd st') = storage (snd st) \<and>
        (same_value m (getCurrentMode st) \<or>
         (\<exists>e. useLocalStorage_effect_try ''color-mode'' (JStr ''dark'') m (snd st) = Inl e \<and>
              console (snd st') = console (snd st) @ [e])))"
proof (cases "same_value m (value_cell (fst st))")
  case True
  with assms show ?thesis by (cases st) (simp add: setColorMode_def getCurrentMode_def)
next
  case False
  obtain c w where st: "st = (c, w)" by (cases st)
  let ?c = "c\<lparr>value_cell := m\<rparr>"
  from False st have ne: "\<not> same_value (value_cell c) m" by (simp add: same_value_sym)
  have "\<exists>st'. commit (?c, w) = Inr st' \<and> settled st' \<and> value_cell (fst st') = value_cell ?c \<and>
     same_browser w (snd st') \<and>
     (no_write w \<longrightarrow> storage (snd st') = storage w \<and>
        (\<exists>e. useLocalStorage_effect_try ''color-mode'' (JStr ''dark'') (value_cell ?c) w = Inl e \<and>
             console (snd st') = console w @ [e]))"
    using assms st ne by (intro commit_result) (simp_all add: deps_changed_def settled_def)
  with False st show ?thesis by (auto simp: setColorMode_def getCurrentMode_def)
qed

lemma setColorModes_append:
  "setColorModes (xs @ ys) st = and_then (setColorModes xs st) (setColorModes ys)"
  by (induction xs arbitrary: st) (simp_all add: and_then_def split: sum.splits)

lemma setColorModes_result:
  "settled st \<Longrightarrow>
   \<exists>st'. setColorModes ms st = Inr st' \<and> settled st' \<and> same_browser (snd st) (snd st') \<and>
     (no_write (snd st) \<longrightarrow> storage (snd st') = storage (snd st))"
proof (induction ms arbitrary: st)
  case Nil
  then show ?case by simp
next
  case (Cons m ms)
  from setColorMode_result [OF Cons.prems, of m] obtain st1 where
    1: "setColorMode m st = Inr st1" "settled st1" "same_browser (snd st) (snd st1)"
       "no_write (snd st) \<longrightarrow> storage (snd st1) = storage (snd st)" by blast
  from Cons.IH [OF 1(2)] obtain st' where
    2: "setColorModes ms st1 = Inr st'" "settled st'" "same_browser (snd st1) (snd st')"
       "no_write (snd st1) \<longrightarrow> storage (snd st') = storage (snd st1)" by blast
  have "same_browser (snd st) (snd st')" using 1(3) 2(3) by (rule same_browser_trans)
  with 1 2 same_browser_no_write [OF 1(3)] show ?case by simp
qed

text \<open>A page load followed by any calls of the setter: nothing raises, and where no write
  can succeed the storage is at the end what it was at the start.\<close>

lemma session_result:
  "\<exists>st. and_then (mount w0) (setColorModes ms) = Inr st \<and> settled st \<and>
     same_browser w0 (snd st) \<and> (no_write w0 \<longrightarrow> storage (snd st) = storage w0)"
proof -
  obtain st0 where 0: "mount w0 = Inr st0" "settled st0" "same_browser w0 (snd st0)"
    "no_write w0 \<longrightarrow> storage (snd st0) = storage w0" using mount_result by blast
  obtain st where 1: "setColorModes ms st0 = Inr st" "settled st" "same_browser (snd st0) (snd st)"
    "no_write (snd st0) \<longrightarrow> storage (snd st) = storage (snd st0)"
    using setColorModes_result [OF 0(2)] by blast
  have "same_browser w0 (snd st)" using 0(3) 1(3) by (rule same_browser_trans)
  with 0 1 same_browser_no_write [OF 0(3)] show ?thesis by simp
qed

lemma storage_never_written:
  assumes "global_object w0 ''storedValue'' = None"
  shows "\<exists>st. and_then (mount w0) (setColorModes ms) = Inr st \<and> storage (snd st) = storage w0"
  using session_result [of w0 ms] assms by (auto simp: no_write_def)

text \<open>So where \<^verbatim>\<open>storedValue\<close> resolves nowhere and nothing was stored, a reload after
  any calls of the setter gives the default mode again.\<close>

lemma reload_default:
  assumes "global_object w0 ''storedValue'' = None" and "storage w0 ''color-mode'' = None"
  shows "\<exists>st st'. and_then (mount w0) (setColorModes ms) = Inr st \<and>
     reload classes st = Inr st' \<and> getCurrentMode st' = JStr ''dark''"
proof -
  from assms(1) have "no_write w0" by (simp add: no_write_def)
  then obtain st where st: "and_then (mount w0) (setColorModes ms) = Inr st"
    "storage (snd st) = storage w0"
    using session_result [of w0 ms] by blast
  let ?w = "(snd st)\<lparr>console := [], body_classes := classes\<rparr>"
  from st(2) assms(2) have "storage ?w ''color-mode'' = None" by simp
  then obtain w1 where "useLocalStorage_init ''color-mode'' (JStr ''dark'') ?w = Inr (JStr ''dark'', w1)"
    using init_absent by blast
  then have "\<exists>st'. mount ?w = Inr st' \<and> getCurrentMode st' = JStr ''dark''"
    by (rule mount_value)
  with st(1) show ?thesis by (simp add: reload_def)
qed

lemma mount_fresh_browser: "mount fresh_browser = Inr dark_page"
  by (simp add: run_defs browser_defs)

section \<open>The claims\<close>

text \<open>
  C1.  Round trip: \<^verbatim>\<open>setColorMode("light")\<close>, then a reload.  The effect of useLocalStorage
  reads the identifier \<^verbatim>\<open>storedValue\<close>, which no scope of the file declares (the state is
  called \<^verbatim>\<open>value\<close>), so in a browser that has no global of that name it throws a
  ReferenceError before it reaches \<^verbatim>\<open>setItem\<close>.  In the browser with empty storage: the
  mode is \<^verbatim>\<open>"light"\<close> after the call, nothing is stored under \<^verbatim>\<open>color-mode\<close>, and the mode
  after the reload is \<^verbatim>\<open>"dark"\<close>, not \<^verbatim>\<open>"light"\<close>.
\<close>

theorem roundtrip_lost:
  "and_then (and_then (mount fresh_browser) (setColorMode (JStr ''light'')))
     (\<lambda>st. and_then (reload served_classes st)
        (\<lambda>st'. Inr (getCurrentMode st, storage (snd st) ''color-mode'', getCurrentMode st')))
   = Inr (JStr ''light'', None, JStr ''dark'')"
  by (simp add: run_defs browser_defs)

text \<open>
  C2.  After the first render of a page load, the body has the class \<^verbatim>\<open>dark\<close> exactly
  when the current mode is \<^verbatim>\<open>"dark"\<close>; and after any sequence of setter calls that ends
  with \<^verbatim>\<open>setColorMode(m)\<close>, for any value \<open>m\<close>, the body has the class exactly when
  \<^verbatim>\<open>m === "dark"\<close>.  No call raises.
\<close>

theorem marker_class_invariant:
  "\<exists>st0 st. mount w0 = Inr st0 \<and>
     classList_contains ''dark'' (snd st0) = strict_equals (getCurrentMode st0) (JStr ''dark'') \<and>
     and_then (mount w0) (setColorModes (ms @ [m])) = Inr st \<and>
     classList_contains ''dark'' (snd st) = strict_equals m (JStr ''dark'')"
proof -
  obtain st0 where 0: "mount w0 = Inr st0" "settled st0" using mount_result by blast
  obtain st1 where 1: "setColorModes ms st0 = Inr st1" "settled st1"
    using setColorModes_result [OF 0(2)] by blast
  obtain st where 2: "setColorMode m st1 = Inr st" "settled st" "same_value m (getCurrentMode st)"
    using setColorMode_result [OF 1(2)] by blast
  from 2 have "classList_contains ''dark'' (snd st) = (m = JStr ''dark'')"
    by (simp add: settled_def getCurrentMode_def same_value_str [of m _ "''dark''"])
  with 0 1 2 show ?thesis
    by (simp add: setColorModes_append settled_def getCurrentMode_def)
qed

theorem marker_class_invariant_witness:
  "\<exists>st0 st. mount fresh_browser = Inr st0 \<and>
     and_then (mount fresh_browser) (setColorModes ([JStr ''dark'', JStr ''light''] @ [JNum 0])) = Inr st \<and>
     \<not> classList_contains ''dark'' (snd st)"
  using marker_class_invariant [of fresh_browser "[JStr ''dark'', JStr ''light'']" "JNum 0"]
  by auto

text \<open>
  C3 (amended).  The initializer of useLocalStorage never raises.  When the storage can be
  read and holds a non-empty item under the key, it returns what \<^verbatim>\<open>JSON.parse\<close> makes of
  the item and logs nothing, or, when \<^verbatim>\<open>JSON.parse\<close> throws, the initial value, logging
  the error.  When reading the storage throws, it returns the initial value and logs the
  error.  When no item is stored, or the empty string is, it returns the initial value
  and logs nothing.
\<close>

theorem read_fallback:
  "(\<exists>v w'. useLocalStorage_init key iv w = Inr (v, w')) \<and>
   (getItem key w = Inr (Some s) \<and> s \<noteq> [] \<and> JSON_parse w s = Inr v
      \<longrightarrow> useLocalStorage_init key iv w = Inr (v, w)) \<and>
   (getItem key w = Inr (Some s) \<and> s \<noteq> [] \<and> JSON_parse w s = Inl e
      \<longrightarrow> useLocalStorage_init key iv w = Inr (iv, console_log e w)) \<and>
   (getItem key w = Inl e
      \<longrightarrow> useLocalStorage_init key iv w = Inr (iv, console_log e w)) \<and>
   (getItem key w = Inr None \<or> getItem key w = Inr (Some [])
      \<longrightarrow> useLocalStorage_init key iv w = Inr (iv, w))"
  by (auto simp: useLocalStorage_init_def useLocalStorage_init_try_def split: sum.splits)

theorem read_fallback_witness:
  "useLocalStorage_init ''color-mode'' (JStr ''dark'') (browser_storing (json_quote ''light''))
     = Inr (JStr ''light'', browser_storing (json_quote ''light'')) \<and>
   useLocalStorage_init ''color-mode'' (JStr ''dark'') (browser_storing ''{not json'')
     = Inr (JStr ''dark'', console_log SyntaxError (browser_storing ''{not json'')) \<and>
   useLocalStorage_init ''color-mode'' (JStr ''dark'') denied_browser
     = Inr (JStr ''dark'', console_log SecurityError denied_browser) \<and>
   useLocalStorage_init ''color-mode'' (JStr ''dark'') (browser_storing [])
     = Inr (JStr ''dark'', browser_storing [])"
proof -
  let ?light = "browser_storing (json_quote ''light'')"
  let ?broken = "browser_storing ''{not json''"
  have a1: "getItem ''color-mode'' ?light = Inr (Some (json_quote ''light''))"
    by (simp add: getItem_def browser_defs)
  have a2: "json_quote ''light'' \<noteq> []"
    by (simp add: json_quote_def)
  have a3: "JSON_parse ?light (json_quote ''light'') = Inr (JStr ''light'')"
    by (rule JSON_parse_quote [OF plain_light])
  have b: "getItem ''color-mode'' ?broken = Inr (Some ''{not json'') \<and> ''{not json'' \<noteq> [] \<and>
      JSON_parse ?broken ''{not json'' = Inl SyntaxError"
    by (simp add: getItem_def browser_defs JSON_parse_def string_literal_def)
  have c: "getItem ''color-mode'' denied_browser = Inl SecurityError"
    by (simp add: getItem_def browser_defs)
  have d: "getItem ''color-mode'' (browser_storing []) = Inr (Some [])"
    by (simp add: getItem_def browser_defs)
  from a1 a2 a3 read_fallback [where key = "''color-mode''" and w = ?light and s = "json_quote ''light''"
      and v = "JStr ''light''" and iv = "JStr ''dark''"]
  have 1: "useLocalStorage_init ''color-mode'' (JStr ''dark'') ?light = Inr (JStr ''light'', ?light)"
    by blast
  from b read_fallback [where key = "''color-mode''" and w = ?broken and s = "''{not json''"
      and e = SyntaxError and iv = "JStr ''dark''"]
  have 2: "useLocalStorage_init ''color-mode'' (JStr ''dark'') ?broken
      = Inr (JStr ''dark'', console_log SyntaxError ?broken)"
    by blast
  from c read_fallback [where key = "''color-mode''" and w = denied_browser
      and e = SecurityError and iv = "JStr ''dark''"]
  have 3: "useLocalStorage_init ''color-mode'' (JStr ''dark'') denied_browser
      = Inr (JStr ''dark'', console_log SecurityError denied_browser)"
    by blast
  from d read_fallback [where key = "''color-mode''" and w = "browser_storing []"
      and iv = "JStr ''dark''"]
  have 4: "useLocalStorage_init ''color-mode'' (JStr ''dark'') (browser_storing [])
      = Inr (JStr ''dark'', browser_storing [])"
    by blast
  from 1 2 3 4 show ?thesis by blast
qed

text \<open>
  C3 as stated fails where it says that the failure is logged when the stored value is
  absent: in the browser with empty storage the initializer returns the initial value and
  the console stays empty.
\<close>

theorem read_absent_not_logged:
  "getItem ''color-mode'' fresh_browser = Inr None \<and>
   useLocalStorage_init ''color-mode'' (JStr ''dark'') fresh_browser
     = Inr (JStr ''dark'', fresh_browser) \<and>
   console fresh_browser = []"
  by (simp add: useLocalStorage_init_def useLocalStorage_init_try_def getItem_def browser_defs)

text \<open>
  C4.  Where every write to the storage fails (it is denied or full), after a page load
  and any earlier calls, \<^verbatim>\<open>setColorMode(m)\<close> does not raise, the current mode is \<open>m\<close>
  afterwards, the storage is what it was when the page was loaded, and, unless \<open>m\<close> was
  the current mode already, exactly the one error that the body of the effect threw has
  been added to the console.
\<close>

theorem write_failure_swallowed:
  assumes "write_fails w0"
  shows "\<exists>st st'. and_then (mount w0) (setColorModes ms) = Inr st \<and>
     setColorMode m st = Inr st' \<and>
     same_value m (getCurrentMode st') \<and>
     storage (snd st') = storage w0 \<and>
     (same_value m (getCurrentMode st) \<or>
      (\<exists>e. useLocalStorage_effect_try ''color-mode'' (JStr ''dark'') m (snd st) = Inl e \<and>
           console (snd st') = console (snd st) @ [e]))"
proof -
  from assms have nw: "no_write w0" by (simp add: no_write_def)
  obtain st where 0: "and_then (mount w0) (setColorModes ms) = Inr st" "settled st"
    "same_browser w0 (snd st)" "storage (snd st) = storage w0"
    using session_result [of w0 ms] nw by blast
  from nw same_browser_no_write [OF 0(3)] have "no_write (snd st)" by simp
  with setColorMode_result [OF 0(2), of m] 0 show ?thesis by auto
qed

theorem write_failure_swallowed_witness:
  "write_fails full_browser \<and>
   (\<exists>st st'. and_then (mount full_browser) (setColorModes [JStr ''dark'']) = Inr st \<and>
      setColorMode (JStr ''light'') st = Inr st' \<and>
      getCurrentMode st' = JStr ''light'' \<and>
      storage (snd st') = storage full_browser)"
proof -
  have h: "write_fails full_browser"
    by (simp add: write_fails_def browser_defs)
  from write_failure_swallowed [OF h, of "[JStr ''dark'']" "JStr ''light''"] h
  show ?thesis by auto
qed

text \<open>In the browser with a full storage and a global \<^verbatim>\<open>storedValue\<close>, the write is
  attempted at the page load and at the call; the console holds the two
  QuotaExceededErrors, the mode is \<^verbatim>\<open>"light"\<close> and the body has lost the class.\<close>

lemma full_browser_session:
  "and_then (and_then (mount full_browser) (setColorMode (JStr ''light'')))
     (\<lambda>st. Inr (getCurrentMode st, storage (snd st) ''color-mode'', console (snd st),
                body_classes (snd st)))
   = Inr (JStr ''light'', None, [QuotaExceededError, QuotaExceededError],
          [''space_mono_variable''])"
  by (simp add: run_defs browser_defs)

text \<open>
  C5.  If nothing is stored under \<^verbatim>\<open>color-mode\<close>, the page load does not raise and the
  current mode is \<^verbatim>\<open>"dark"\<close>.
\<close>

theorem default_mode:
  assumes "storage w ''color-mode'' = None"
  shows "\<exists>st. mount w = Inr st \<and> getCurrentMode st = JStr ''dark''"
proof -
  obtain w1 where "useLocalStorage_init ''color-mode'' (JStr ''dark'') w = Inr (JStr ''dark'', w1)"
    using init_absent [OF assms] by blast
  then show ?thesis by (rule mount_value)
qed

theorem default_mode_witness:
  "storage fresh_browser ''color-mode'' = None \<and>
   (\<exists>st. mount fresh_browser = Inr st \<and> getCurrentMode st = JStr ''dark'')"
proof -
  have h: "storage fresh_browser ''color-mode'' = None"
    by (simp add: fresh_browser_def)
  from default_mode [OF h] h show ?thesis by blast
qed

text \<open>
  C6.  If the storage, read under \<^verbatim>\<open>color-mode\<close>, gives the JSON text of \<open>v\<close>, where \<open>v\<close>
  is \<^verbatim>\<open>"light"\<close> or \<^verbatim>\<open>"dark"\<close>, then the current mode after the page load is \<open>v\<close>.
\<close>

theorem stored_value_restored:
  assumes "v \<in> {''light'', ''dark''}"
    and "getItem ''color-mode'' w = Inr (Some (json_quote v))"
  shows "\<exists>st. mount w = Inr st \<and> getCurrentMode st = JStr v"
proof -
  from assms(1) have "list_all json_plain_char v"
    using plain_light plain_dark by auto
  then have "JSON_parse w (json_quote v) = Inr (JStr v)" by (rule JSON_parse_quote)
  with assms(2) have "useLocalStorage_init ''color-mode'' (JStr ''dark'') w = Inr (JStr v, w)"
    by (simp add: useLocalStorage_init_def useLocalStorage_init_try_def json_quote_def)
  then show ?thesis by (rule mount_value)
qed

theorem stored_value_restored_witness:
  "''light'' \<in> {''light'', ''dark''} \<and>
   getItem ''color-mode'' (browser_storing (json_quote ''light'')) = Inr (Some (json_quote ''light'')) \<and>
   (\<exists>st. mount (browser_storing (json_quote ''light'')) = Inr st \<and> getCurrentMode st = JStr ''light'')"
proof -
  have h1: "''light'' \<in> {''light'', ''dark''}" by simp
  have h2: "getItem ''color-mode'' (browser_storing (json_quote ''light''))
      = Inr (Some (json_quote ''light''))"
    by (simp add: getItem_def browser_defs)
  from stored_value_restored [OF h1 h2] h1 h2 show ?thesis by blast
qed

text \<open>
  C7.  \<^verbatim>\<open>setColorMode(m)\<close> does not raise, and a second \<^verbatim>\<open>setColorMode(m)\<close> right after
  it changes nothing at all: the storage and the classes of the body are what the first
  call left.
\<close>

theorem setColorMode_idempotent:
  "\<exists>st1 st2. setColorMode m st = Inr st1 \<and> setColorMode m st1 = Inr st2 \<and> st2 = st1 \<and>
     storage (snd st2) = storage (snd st1) \<and>
     classList_contains ''dark'' (snd st2) = classList_contains ''dark'' (snd st1)"
proof -
  obtain c w where st: "st = (c, w)" by (cases st)
  show ?thesis
  proof (cases "same_value m (value_cell c)")
    case True
    with st show ?thesis by (simp add: setColorMode_def)
  next
    case False
    obtain c' w' where "commit (c\<lparr>value_cell := m\<rparr>, w) = Inr (c', w')"
      "value_cell c' = value_cell (c\<lparr>value_cell := m\<rparr>)"
      using commit_total by blast
    with False st show ?thesis by (simp add: setColorMode_def)
  qed
qed

theorem setColorMode_idempotent_witness:
  "\<exists>st1. setColorMode (JStr ''light'') dark_page = Inr st1 \<and>
     setColorMode (JStr ''light'') st1 = Inr st1"
  using setColorMode_idempotent [of "JStr ''light''" dark_page] by blast

text \<open>
  C8 (amended).  Pressing the button calls the setter with \<^verbatim>\<open>"dark"\<close> when the current
  mode is \<^verbatim>\<open>"light"\<close> and with \<^verbatim>\<open>"light"\<close> otherwise.  The button shows the label
  \<^verbatim>\<open>DARK\<close> with the inline \<^verbatim>\<open>svg\<close> drawing exactly when the current mode is \<^verbatim>\<open>"light"\<close>,
  and the label \<^verbatim>\<open>LIGHT\<close> with the image \<^verbatim>\<open>/assets/icon-sun.svg\<close> exactly when it is not,
  so when it is \<^verbatim>\<open>"dark"\<close>.
\<close>

theorem button_contract:
  "Button_onPress mode st =
     setColorMode (if mode = JStr ''light'' then JStr ''dark'' else JStr ''light'') st \<and>
   ((Button_label mode = ''DARK'' \<and> Button_icon mode = InlineSvg svg_path)
      = (mode = JStr ''light'')) \<and>
   ((Button_label mode = ''LIGHT'' \<and> Button_icon mode = Image ''/assets/icon-sun.svg'')
      = (mode \<noteq> JStr ''light''))"
  by (simp add: Button_onPress_def Button_label_def Button_icon_def)

theorem button_contract_witness:
  "Button_onPress (JStr ''dark'') dark_page = setColorMode (JStr ''light'') dark_page \<and>
   Button_label (JStr ''dark'') = ''LIGHT'' \<and>
   Button_icon (JStr ''dark'') = Image ''/assets/icon-sun.svg''"
  using button_contract [of "JStr ''dark''" dark_page] by simp

text \<open>
  C8 as stated fails on the icons: in light mode the label is \<^verbatim>\<open>DARK\<close> but the icon is
  not the sun image; the sun image is what dark mode shows.
\<close>

theorem button_sun_icon_counterexample:
  "Button_label (JStr ''light'') = ''DARK'' \<and>
   Button_icon (JStr ''light'') \<noteq> Image ''/assets/icon-sun.svg'' \<and>
   Button_icon (JStr ''dark'') = Image ''/assets/icon-sun.svg''"
  by (simp add: Button_label_def Button_icon_def)

text \<open>
  C9.  First read with nothing stored.  In the browser with empty storage and no global
  \<^verbatim>\<open>storedValue\<close>, after the page load with its effects the current mode is the default
  \<^verbatim>\<open>"dark"\<close>, but the storage still holds nothing under \<^verbatim>\<open>color-mode\<close>: the effect logged
  a ReferenceError instead of writing.
\<close>

theorem first_read_stores_nothing:
  "and_then (mount fresh_browser)
     (\<lambda>st. Inr (getCurrentMode st, storage (snd st) ''color-mode'', console (snd st)))
   = Inr (JStr ''dark'', None, [ReferenceError ''storedValue''])"
  by (simp add: run_defs browser_defs)

text \<open>
  C10.  For every value \<open>m\<close>, string or not, the effect of useColorMode does not raise and
  leaves the class \<^verbatim>\<open>dark\<close> on the body exactly when \<^verbatim>\<open>m === "dark"\<close>, which holds exactly
  when \<open>m\<close> is the string \<^verbatim>\<open>"dark"\<close>.
\<close>

theorem class_sync_total:
  "\<exists>w'. useColorMode_effect m w = Inr w' \<and>
     classList_contains ''dark'' w' = strict_equals m (JStr ''dark'') \<and>
     strict_equals m (JStr ''dark'') = (m = JStr ''dark'')"
  using sync_result [of m w] by auto

theorem class_sync_total_witness:
  "\<exists>w'. useColorMode_effect (JStr ''blue'') fresh_browser = Inr w' \<and>
     \<not> classList_contains ''dark'' w'"
  using class_sync_total [of "JStr ''blue''" fresh_browser] by auto

end
